theory Spec2Isabelle
  imports Main "HOL-Library.Multiset" "HOL-Library.Sublist" "HOL-Library.Word"
begin

section \<open>Data model of the menu page\<close>

text \<open>
  The page component keeps a catalog of menu items (from the static \<open>menu.json\<close>), a cart and
  the order notes. JavaScript numbers are modelled as integers: menu prices are whole amounts
  and quantities are counts, and on integers below \<open>2^53\<close> the arithmetic of the source is the
  arithmetic of \<open>int\<close>. The values \<open>Infinity\<close>, \<open>-Infinity\<close> and \<open>NaN\<close>, which
  \<open>Math.min()\<close>, \<open>Math.max()\<close> and their differences produce on an empty price array, are
  kept in the type \<open>number\<close>. An optional property of an object is an \<open>option\<close>, with
  \<open>None\<close> for \<open>undefined\<close>.
\<close>

text \<open>
  A string of the host language is a sequence of UTF-16 code units: equality, \<open>includes\<close> and
  concatenation work on the code units, and a surrogate need not be paired. \<open>ascii\<close> turns a
  literal of ASCII characters into such a string.
\<close>

type_synonym code_unit = "16 word"
type_synonym js_string = "code_unit list"

definition ascii :: "string \<Rightarrow> js_string" where
  "ascii s = map of_char s"

datatype number = Fin int | PosInf | NegInf | NaN

text \<open>
  The \<open>price\<close> property of a catalog item: \<open>Missing\<close> stands for \<open>null\<close>, \<open>undefined\<close> and
  the empty string (the three values every function of the page treats alike), \<open>Num\<close> for a
  scalar and \<open>Range\<close> for an array of numbers.
\<close>

datatype price_value = Missing | Num int | Range "int list"

record 'p menu_entry =
  name :: "js_string option"
  name_ar :: "js_string option"
  description :: "js_string option"
  description_ar :: "js_string option"
  image_file :: "js_string option"
  price :: 'p

type_synonym item = "price_value menu_entry"

text \<open>
  A cart line is \<open>{ ...item, price: cartPrice, quantity }\<close>: the properties of the item with
  the price replaced by the locked unit price (\<open>None\<close> when \<open>item.price[0]\<close> is \<open>undefined\<close>)
  and the quantity added.
\<close>

record cart_line = "int option menu_entry" +
  quantity :: int

record state =
  cart :: "cart_line list"
  orderNotes :: js_string
  language :: js_string

definition initial_state :: state where
  "initial_state = \<lparr>cart = [], orderNotes = [], language = ascii ''ar''\<rparr>"

section \<open>Cart store\<close>

text \<open>\<open>x || 0\<close> on a number and on a number that may be \<open>undefined\<close>.\<close>

definition or0 :: "int \<Rightarrow> int" where
  "or0 x = (if x = 0 then 0 else x)"

definition opt_or0 :: "int option \<Rightarrow> int" where
  "opt_or0 x = (case x of None \<Rightarrow> 0 | Some v \<Rightarrow> or0 v)"

text \<open>\<open>Array.isArray(item.price) ? item.price[0] : (item.price || 0)\<close>\<close>

definition cartPrice :: "item \<Rightarrow> int option" where
  "cartPrice it =
     (case price it of
        Range xs \<Rightarrow> (case xs of [] \<Rightarrow> None | x # _ \<Rightarrow> Some x)
      | Num n \<Rightarrow> Some (or0 n)
      | Missing \<Rightarrow> Some 0)"

definition new_line :: "item \<Rightarrow> int option \<Rightarrow> int \<Rightarrow> cart_line" where
  "new_line it p q =
     \<lparr>name = name it, name_ar = name_ar it, description = description it,
      description_ar = description_ar it, image_file = image_file it,
      price = p, quantity = q\<rparr>"

text \<open>
  \<open>addToCart(item, quantity = 1)\<close>: the item may be \<open>null\<close> (\<open>None\<close>), the quantity may be
  left out (\<open>None\<close>, the default 1 applies).
\<close>

definition addToCart :: "item option \<Rightarrow> int option \<Rightarrow> state \<Rightarrow> state" where
  "addToCart item_arg quantity_arg st =
     (case item_arg of
        None \<Rightarrow> st
      | Some it \<Rightarrow>
          let q = (case quantity_arg of None \<Rightarrow> 1 | Some v \<Rightarrow> v);
              p = cartPrice it;
              prev = cart st
          in (case find (\<lambda>cartItem. name cartItem = name it) prev of
                Some existing \<Rightarrow>
                  st\<lparr>cart := map (\<lambda>cartItem.
                          if name cartItem = name it
                          then cartItem\<lparr>quantity := quantity cartItem + q\<rparr>
                          else cartItem) prev\<rparr>
              | None \<Rightarrow> st\<lparr>cart := prev @ [new_line it p q]\<rparr>))"

definition removeFromCart :: "js_string option \<Rightarrow> state \<Rightarrow> state" where
  "removeFromCart itemName st = st\<lparr>cart := filter (\<lambda>i. name i \<noteq> itemName) (cart st)\<rparr>"

definition updateQuantity :: "js_string option \<Rightarrow> int \<Rightarrow> state \<Rightarrow> state" where
  "updateQuantity itemName newQuantity st =
     (if newQuantity \<le> 0 then removeFromCart itemName st
      else st\<lparr>cart := map (\<lambda>i. if name i = itemName then i\<lparr>quantity := newQuantity\<rparr> else i)
                          (cart st)\<rparr>)"

definition clearCart :: "state \<Rightarrow> state" where
  "clearCart st = st\<lparr>cart := [], orderNotes := []\<rparr>"

definition getTotalItems :: "state \<Rightarrow> int" where
  "getTotalItems st = foldl (\<lambda>sum i. sum + or0 (quantity i)) 0 (cart st)"

definition getTotalPrice :: "state \<Rightarrow> int" where
  "getTotalPrice st = foldl (\<lambda>sum i. sum + opt_or0 (price i) * or0 (quantity i)) 0 (cart st)"

text \<open>The four cart operations as actions, and a finite sequence of them run from a state.\<close>

datatype action =
    AddToCart "item option" "int option"
  | UpdateQuantity "js_string option" int
  | RemoveFromCart "js_string option"
  | ClearCart

fun apply_action :: "state \<Rightarrow> action \<Rightarrow> state" where
  "apply_action st (AddToCart it q) = addToCart it q st"
| "apply_action st (UpdateQuantity n q) = updateQuantity n q st"
| "apply_action st (RemoveFromCart n) = removeFromCart n st"
| "apply_action st ClearCart = clearCart st"

definition run :: "action list \<Rightarrow> state \<Rightarrow> state" where
  "run acts st = foldl apply_action st acts"

text \<open>The sum the specification speaks of: quantity times unit price, a missing price as 0.\<close>

definition line_total :: "cart_line \<Rightarrow> int" where
  "line_total l = quantity l * (case price l of None \<Rightarrow> 0 | Some p \<Rightarrow> p)"

text \<open>The catalog of the specification's example scenario.\<close>

definition koshari :: item where
  "koshari = \<lparr>name = Some (ascii ''Koshari''), name_ar = None, description = None,
              description_ar = None, image_file = None, price = Num 45\<rparr>"

definition fattah :: item where
  "fattah = \<lparr>name = Some (ascii ''Fattah''), name_ar = None, description = None,
             description_ar = None, image_file = None, price = Range [80, 120]\<rparr>"

section \<open>Numbers and strings of the host language\<close>

text \<open>
  \<open>Math.min(...xs)\<close> and \<open>Math.max(...xs)\<close> on an array of numbers; without arguments they
  are \<open>Infinity\<close> and \<open>-Infinity\<close>.
\<close>

definition Math_min :: "int list \<Rightarrow> number" where
  "Math_min xs = (case xs of [] \<Rightarrow> PosInf | x # ys \<Rightarrow> Fin (foldl min x ys))"

definition Math_max :: "int list \<Rightarrow> number" where
  "Math_max xs = (case xs of [] \<Rightarrow> NegInf | x # ys \<Rightarrow> Fin (foldl max x ys))"

text \<open>Subtraction of numbers: the difference of equal infinities is \<open>NaN\<close>.\<close>

fun js_sub :: "number \<Rightarrow> number \<Rightarrow> number" where
  "js_sub NaN _ = NaN"
| "js_sub _ NaN = NaN"
| "js_sub (Fin a) (Fin b) = Fin (a - b)"
| "js_sub (Fin a) PosInf = NegInf"
| "js_sub (Fin a) NegInf = PosInf"
| "js_sub PosInf PosInf = NaN"
| "js_sub PosInf _ = PosInf"
| "js_sub NegInf NegInf = NaN"
| "js_sub NegInf _ = NegInf"

text \<open>The order of numbers; every comparison with \<open>NaN\<close> is false.\<close>

fun num_le :: "number \<Rightarrow> number \<Rightarrow> bool" where
  "num_le NaN _ = False"
| "num_le _ NaN = False"
| "num_le NegInf _ = True"
| "num_le _ PosInf = True"
| "num_le (Fin a) (Fin b) = (a \<le> b)"
| "num_le _ _ = False"

text \<open>Decimal rendering of a number, as string conversion in a template literal does it.\<close>

fun nat_to_string :: "nat \<Rightarrow> js_string" where
  "nat_to_string n =
     (if n < 10 then [of_nat (48 + n)]
      else nat_to_string (n div 10) @ [of_nat (48 + n mod 10)])"

definition int_to_string :: "int \<Rightarrow> js_string" where
  "int_to_string i = (if i < 0 then 0x2D # nat_to_string (nat (- i)) else nat_to_string (nat i))"

fun ToString :: "number \<Rightarrow> js_string" where
  "ToString (Fin i) = int_to_string i"
| "ToString PosInf = ascii ''Infinity''"
| "ToString NegInf = ascii ''-Infinity''"
| "ToString NaN = ascii ''NaN''"

text \<open>A string property in a template literal: \<open>undefined\<close> is rendered as the word.\<close>

definition template_string :: "js_string option \<Rightarrow> js_string" where
  "template_string s = (case s of None \<Rightarrow> (ascii ''undefined'') | Some v \<Rightarrow> v)"

text \<open>\<open>s.includes(q)\<close>: \<open>q\<close> occurs in \<open>s\<close> as a contiguous sequence of code units.\<close>

fun string_includes :: "js_string \<Rightarrow> js_string \<Rightarrow> bool" where
  "string_includes [] q = (q = [])"
| "string_includes (c # s) q = (prefix q (c # s) \<or> string_includes s q)"

text \<open>
  \<open>encodeURIComponent\<close>, as ECMAScript defines it: an unreserved code unit stays; any other
  code point is written as the \<open>%XX\<close> escapes of its UTF-8 octets, a leading surrogate
  together with the trailing surrogate that follows it; a surrogate that is not paired makes
  the function throw \<open>URIError\<close>.
\<close>

datatype error = URIError

definition is_high_surrogate :: "code_unit \<Rightarrow> bool" where
  "is_high_surrogate u = (0xD800 \<le> u \<and> u \<le> 0xDBFF)"

definition is_low_surrogate :: "code_unit \<Rightarrow> bool" where
  "is_low_surrogate u = (0xDC00 \<le> u \<and> u \<le> 0xDFFF)"

definition code_point :: "code_unit \<Rightarrow> code_unit \<Rightarrow> nat" where
  "code_point lead trail = (unat lead - 0xD800) * 0x400 + (unat trail - 0xDC00) + 0x10000"

definition uri_unreserved :: "code_unit \<Rightarrow> bool" where
  "uri_unreserved c =
     (c \<in> set (ascii ''ABCDEFGHIJKLMNOPQRSTUVWXYZabcdefghijklmnopqrstuvwxyz0123456789-_.!~*()''
               @ [0x27]))"

definition utf8 :: "nat \<Rightarrow> nat list" where
  "utf8 cp =
     (if cp < 0x80 then [cp]
      else if cp < 0x800 then [0xC0 + cp div 0x40, 0x80 + cp mod 0x40]
      else if cp < 0x10000
      then [0xE0 + cp div 0x1000, 0x80 + cp div 0x40 mod 0x40, 0x80 + cp mod 0x40]
      else [0xF0 + cp div 0x40000, 0x80 + cp div 0x1000 mod 0x40, 0x80 + cp div 0x40 mod 0x40,
            0x80 + cp mod 0x40])"

definition hex_digit :: "nat \<Rightarrow> code_unit" where
  "hex_digit n = (if n < 10 then of_nat (48 + n) else of_nat (55 + n))"

definition percent_octet :: "nat \<Rightarrow> js_string" where
  "percent_octet b = [0x25, hex_digit (b div 16), hex_digit (b mod 16)]"

definition escape :: "nat \<Rightarrow> js_string" where
  "escape cp = concat (map percent_octet (utf8 cp))"

definition followed_by :: "js_string \<Rightarrow> error + js_string \<Rightarrow> error + js_string" where
  "followed_by s r = (case r of Inl e \<Rightarrow> Inl e | Inr t \<Rightarrow> Inr (s @ t))"

fun encodeURIComponent :: "js_string \<Rightarrow> error + js_string" where
  "encodeURIComponent [] = Inr []"
| "encodeURIComponent [u] =
     (if uri_unreserved u then Inr [u]
      else if is_high_surrogate u \<or> is_low_surrogate u then Inl URIError
      else Inr (escape (unat u)))"
| "encodeURIComponent (u # v # vs) =
     (if uri_unreserved u then followed_by [u] (encodeURIComponent (v # vs))
      else if is_high_surrogate u
      then (if is_low_surrogate v
            then followed_by (escape (code_point u v)) (encodeURIComponent vs)
            else Inl URIError)
      else if is_low_surrogate u then Inl URIError
      else followed_by (escape (unat u)) (encodeURIComponent (v # vs)))"

text \<open>The literals of the page that are not ASCII, as code units.\<close>

definition currency_ar :: js_string where
  "currency_ar =
     [0x062C, 0x002E, 0x0645]"

definition greeting_ar :: js_string where
  "greeting_ar =
     [0x0645, 0x0631, 0x062D, 0x0628, 0x0627, 0x064B, 0x0021, 0x0020,
     0x0623, 0x0648, 0x062F, 0x0020, 0x062A, 0x0642, 0x062F, 0x064A,
     0x0645, 0x0020, 0x0637, 0x0644, 0x0628, 0x0020, 0x0645, 0x0646,
     0x0020, 0x0645, 0x0637, 0x0628, 0x062E, 0x0020, 0x062C, 0x062F,
     0x064A, 0x062A, 0x064A, 0x002E]"

definition total_ar :: js_string where
  "total_ar =
     [0x0627, 0x0644, 0x0645, 0x062C, 0x0645, 0x0648, 0x0639]"

definition instructions_ar :: js_string where
  "instructions_ar =
     [0x062A, 0x0639, 0x0644, 0x064A, 0x0645, 0x0627, 0x062A, 0x0020,
     0x062E, 0x0627, 0x0635, 0x0629]"

definition thanks_ar :: js_string where
  "thanks_ar =
     [0x0634, 0x0643, 0x0631, 0x0627, 0x064B, 0x0021]"

definition on_request_ar :: js_string where
  "on_request_ar =
     [0x0627, 0x0644, 0x0633, 0x0639, 0x0631, 0x0020, 0x0639, 0x0646,
     0x062F, 0x0020, 0x0627, 0x0644, 0x0637, 0x0644, 0x0628]"

definition bullet :: js_string where
  "bullet = [0x2022]"

definition newline :: js_string where
  "newline = [0x0A]"

section \<open>Price formatting\<close>

text \<open>
  \<open>formatPrice(price, language = 'ar')\<close> of the first page file. \<open>toLocaleString\<close> is the
  number formatting of the host's locale, a parameter of the model. A call that leaves the
  language out is the call with \<open>''ar''\<close>.
\<close>

definition formatPrice :: "(number \<Rightarrow> js_string) \<Rightarrow> price_value \<Rightarrow> js_string \<Rightarrow> js_string" where
  "formatPrice toLocaleString p lang =
     (case p of
        Missing \<Rightarrow> (if lang = ascii ''en'' then ascii ''EGP 0'' else currency_ar @ ascii '' 0'')
      | Range xs \<Rightarrow>
          if length xs = 0 then (if lang = ascii ''en'' then ascii ''EGP 0'' else currency_ar @ ascii '' 0'')
          else
            let minPrice = Math_min xs; maxPrice = Math_max xs
            in if minPrice = maxPrice then ascii ''EGP '' @ toLocaleString minPrice
               else if lang = ascii ''en''
                    then ascii ''EGP '' @ toLocaleString minPrice @ ascii '' - '' @ toLocaleString maxPrice
                    else currency_ar @ ascii '' '' @ toLocaleString minPrice @ ascii '' - ''
                           @ toLocaleString maxPrice
      | Num n \<Rightarrow> (ascii ''EGP '') @ toLocaleString (Fin n))"

text \<open>\<open>formatPrice\<close> of the second page file: raw numbers, "price on request" when missing.\<close>

definition formatPrice_v2 :: "price_value \<Rightarrow> js_string \<Rightarrow> js_string" where
  "formatPrice_v2 p lang =
     (case p of
        Missing \<Rightarrow> (if lang = ascii ''en'' then ascii ''Price on request'' else on_request_ar)
      | Range xs \<Rightarrow>
          if length xs = 0 then (if lang = ascii ''en'' then ascii ''Price on request'' else on_request_ar)
          else
            let minPrice = Math_min xs; maxPrice = Math_max xs
            in if minPrice = maxPrice then ascii ''EGP '' @ ToString minPrice
               else if lang = ascii ''en''
                    then ascii ''EGP '' @ ToString minPrice @ ascii '' - '' @ ToString maxPrice
                    else currency_ar @ ascii '' '' @ ToString minPrice @ ascii '' - '' @ ToString maxPrice
      | Num n \<Rightarrow> (ascii ''EGP '') @ ToString (Fin n))"

section \<open>Filter and sort engine\<close>

text \<open>
  Arrays are mutable objects: the heap is the list of the arrays allocated so far, a reference
  is an index into it. The catalog maps a category id to its data, whose \<open>items\<close> property
  is a reference to the array of the category's items (or is missing).
\<close>

type_synonym ref = nat
type_synonym heap = "item list list"

record category =
  category_name :: "js_string option"
  category_name_ar :: "js_string option"
  heroImage :: "js_string option"
  items :: "ref option"

type_synonym menu = "js_string \<Rightarrow> category option"

definition alloc :: "heap \<Rightarrow> item list \<Rightarrow> ref \<times> heap" where
  "alloc h xs = (length h, h @ [xs])"

text \<open>
  \<open>Array.prototype.sort(compare)\<close>: a stable sort in place; an element \<open>x\<close> stays before a
  later element \<open>y\<close> unless \<open>compare(x, y) > 0\<close>, and a \<open>NaN\<close> result counts as \<open>+0\<close>. With
  a comparator that is consistent, as a difference of keys is, every stable sort gives this
  result.
\<close>

fun is_positive :: "number \<Rightarrow> bool" where
  "is_positive (Fin v) = (0 < v)"
| "is_positive PosInf = True"
| "is_positive NegInf = False"
| "is_positive NaN = False"

fun insert_sorted :: "('a \<Rightarrow> 'a \<Rightarrow> number) \<Rightarrow> 'a \<Rightarrow> 'a list \<Rightarrow> 'a list" where
  "insert_sorted compare x [] = [x]"
| "insert_sorted compare x (y # ys) =
     (if is_positive (compare x y) then y # insert_sorted compare x ys else x # y # ys)"

fun Array_sort :: "('a \<Rightarrow> 'a \<Rightarrow> number) \<Rightarrow> 'a list \<Rightarrow> 'a list" where
  "Array_sort compare [] = []"
| "Array_sort compare (x # xs) = insert_sorted compare x (Array_sort compare xs)"

text \<open>\<open>Array.isArray(a.price) ? Math.min(...a.price) : (a.price || 0)\<close>, and with \<open>Math.max\<close>.\<close>

definition low_key :: "item \<Rightarrow> number" where
  "low_key a = (case price a of Range xs \<Rightarrow> Math_min xs | Num n \<Rightarrow> Fin (or0 n) | Missing \<Rightarrow> Fin 0)"

definition high_key :: "item \<Rightarrow> number" where
  "high_key a = (case price a of Range xs \<Rightarrow> Math_max xs | Num n \<Rightarrow> Fin (or0 n) | Missing \<Rightarrow> Fin 0)"

definition compare_low_high :: "item \<Rightarrow> item \<Rightarrow> number" where
  "compare_low_high a b = (let priceA = low_key a; priceB = low_key b in js_sub priceA priceB)"

definition compare_high_low :: "item \<Rightarrow> item \<Rightarrow> number" where
  "compare_high_low a b = (let priceA = high_key a; priceB = high_key b in js_sub priceB priceA)"

text \<open>
  The callback of the filter; an \<open>undefined\<close> or empty property is falsy.
  \<open>String.prototype.toLowerCase\<close> is the host's (the case mapping of the Unicode tables): it
  is a parameter of the model, as it is of everything that calls the filter.
\<close>

definition matches_query :: "(js_string \<Rightarrow> js_string) \<Rightarrow> js_string \<Rightarrow> item \<Rightarrow> bool" where
  "matches_query toLowerCase searchQuery i =
     (let query = toLowerCase searchQuery
      in (case name i of None \<Rightarrow> False | Some n \<Rightarrow> string_includes (toLowerCase n) query)
       \<or> (case name_ar i of None \<Rightarrow> False | Some n \<Rightarrow> n \<noteq> [] \<and> string_includes n searchQuery)
       \<or> (case description i of None \<Rightarrow> False
           | Some d \<Rightarrow> d \<noteq> [] \<and> string_includes (toLowerCase d) query)
       \<or> (case description_ar i of None \<Rightarrow> False
           | Some d \<Rightarrow> d \<noteq> [] \<and> string_includes d searchQuery))"

text \<open>
  \<open>getFilteredAndSortedItems\<close>, with the catalog, the selected category, the query and the
  sort mode of its closure as arguments. It returns the reference of the result array and the
  heap after the call: the spread and the filter allocate a new array, the sort writes into
  the array it is called on.
\<close>

definition getFilteredAndSortedItems ::
    "(js_string \<Rightarrow> js_string) \<Rightarrow> menu \<Rightarrow> js_string \<Rightarrow> js_string \<Rightarrow> js_string \<Rightarrow> heap
       \<Rightarrow> ref \<times> heap" where
  "getFilteredAndSortedItems toLowerCase menuData selectedCategory searchQuery priceSort h =
     (case menuData selectedCategory of
        None \<Rightarrow> alloc h []
      | Some categoryData \<Rightarrow>
          (case items categoryData of
             None \<Rightarrow> alloc h []
           | Some catalog_items \<Rightarrow>
               let (items0, h0) = alloc h (h ! catalog_items);
                   (items1, h1) =
                     (if searchQuery \<noteq> []
                      then alloc h0 (filter (matches_query toLowerCase searchQuery) (h0 ! items0))
                      else (items0, h0));
                   h2 =
                     (if priceSort = ascii ''low-high''
                      then h1[items1 := Array_sort compare_low_high (h1 ! items1)]
                      else if priceSort = ascii ''high-low''
                      then h1[items1 := Array_sort compare_high_low (h1 ! items1)]
                      else h1)
               in (items1, h2)))"

text \<open>\<open>const filteredItems = getFilteredAndSortedItems()\<close>: the contents of the result array.\<close>

definition filteredItems ::
    "(js_string \<Rightarrow> js_string) \<Rightarrow> menu \<Rightarrow> js_string \<Rightarrow> js_string \<Rightarrow> js_string \<Rightarrow> heap
       \<Rightarrow> item list" where
  "filteredItems toLowerCase menuData selectedCategory searchQuery priceSort h =
     (let (r, h') =
            getFilteredAndSortedItems toLowerCase menuData selectedCategory searchQuery priceSort h
      in h' ! r)"

text \<open>The items of a category as the catalog lists them (none when the category is unknown).\<close>

definition catalog_items_of :: "menu \<Rightarrow> js_string \<Rightarrow> heap \<Rightarrow> item list" where
  "catalog_items_of menuData selectedCategory h =
     (case menuData selectedCategory of
        None \<Rightarrow> []
      | Some categoryData \<Rightarrow> (case items categoryData of None \<Rightarrow> [] | Some r \<Rightarrow> h ! r))"

section \<open>Order composer\<close>

datatype effect = WindowOpen js_string js_string

text \<open>
  \<open>handleWhatsAppOrder\<close> of the first page file: it reads the state, builds the message by
  appending to it, encodes it and opens the link. When \<open>encodeURIComponent\<close> throws, the
  handler ends with that error before \<open>window.open\<close> is reached; otherwise it returns the
  state it leaves behind and the effects it requests.
\<close>

definition order_line :: "(number \<Rightarrow> js_string) \<Rightarrow> js_string \<Rightarrow> cart_line \<Rightarrow> js_string" where
  "order_line toLocaleString lang i =
     (let itemName = (if lang = ascii ''ar'' \<and> name_ar i \<noteq> None \<and> name_ar i \<noteq> Some []
                      then name_ar i else name i)
      in bullet @ ascii '' '' @ ToString (Fin (quantity i)) @ ascii ''x '' @ template_string itemName
           @ ascii '' - EGP '' @ toLocaleString (Fin (opt_or0 (price i) * or0 (quantity i))) @ newline)"

definition order_message :: "(number \<Rightarrow> js_string) \<Rightarrow> state \<Rightarrow> js_string" where
  "order_message toLocaleString st =
     (let lang = language st;
          message0 = (if lang = ascii ''en''
                      then ascii ''Hello! I'' @ [0x27] @ ascii ''d like to place an order from Matbakh Gedity.''
                             @ newline @ newline
                      else greeting_ar @ newline @ newline);
          message1 = foldl (\<lambda>message i. message @ order_line toLocaleString lang i)
                       message0 (cart st);
          message2 = message1 @ newline @ (if lang = ascii ''en'' then ascii ''Total'' else total_ar)
                       @ ascii '': EGP '' @ toLocaleString (Fin (getTotalPrice st));
          message3 = (if orderNotes st \<noteq> []
                      then message2 @ newline @ newline
                             @ (if lang = ascii ''en'' then ascii ''Special Instructions'' else instructions_ar)
                             @ ascii '': '' @ orderNotes st
                      else message2)
      in message3 @ newline @ newline @ (if lang = ascii ''en'' then ascii ''Thank you!'' else thanks_ar))"

definition handleWhatsAppOrder ::
    "(number \<Rightarrow> js_string) \<Rightarrow> state \<Rightarrow> error + state \<times> effect list" where
  "handleWhatsAppOrder toLocaleString st =
     (let whatsappNumber = ascii ''+201035087703'';
          message = order_message toLocaleString st
      in case encodeURIComponent message of
           Inl e \<Rightarrow> Inl e
         | Inr encoded \<Rightarrow>
             let whatsappUrl = ascii ''https://wa.me/'' @ whatsappNumber @ ascii ''?text='' @ encoded
             in Inr (st, [WindowOpen whatsappUrl (ascii ''_blank'')]))"

section \<open>Notions of the specification\<close>

text \<open>The cart invariant: lines are unique by name and every quantity is positive.\<close>

definition cart_inv :: "cart_line list \<Rightarrow> bool" where
  "cart_inv c = (distinct (map name c) \<and> list_all (\<lambda>l. 0 < quantity l) c)"

text \<open>
  An \<open>addToCart\<close> with the default quantity (the call the page itself makes) or with a
  positive one. The other three operations take any argument.
\<close>

fun positive_add :: "action \<Rightarrow> bool" where
  "positive_add (AddToCart it q) = (case q of None \<Rightarrow> True | Some v \<Rightarrow> 0 < v)"
| "positive_add _ = True"




text \<open>
  A string is well formed when every surrogate in it is paired: a leading surrogate is
  followed by a trailing one, and a trailing one follows a leading one.
\<close>

fun well_formed :: "js_string \<Rightarrow> bool" where
  "well_formed [] = True"
| "well_formed [u] = (\<not> is_high_surrogate u \<and> \<not> is_low_surrogate u)"
| "well_formed (u # v # vs) =
     (if is_high_surrogate u then is_low_surrogate v \<and> well_formed vs
      else \<not> is_low_surrogate u \<and> well_formed (v # vs))"

text \<open>
  The UTF-8 octets of a string (of a lone surrogate, the octets of its own number), and the
  octets a percent-encoded text stands for: an escape \<open>%XX\<close> for the octet with the
  hexadecimal digits \<open>XX\<close>, any other code unit for itself.
\<close>

fun utf8_octets :: "js_string \<Rightarrow> nat list" where
  "utf8_octets [] = []"
| "utf8_octets [u] = utf8 (unat u)"
| "utf8_octets (u # v # vs) =
     (if is_high_surrogate u \<and> is_low_surrogate v
      then utf8 (code_point u v) @ utf8_octets vs
      else utf8 (unat u) @ utf8_octets (v # vs))"

definition hex_value :: "code_unit \<Rightarrow> nat" where
  "hex_value c = (if c \<le> 0x39 then unat c - 0x30 else unat c - 0x37)"

fun percent_decode :: "js_string \<Rightarrow> nat list" where
  "percent_decode [] = []"
| "percent_decode [c] = [unat c]"
| "percent_decode [c, a] = unat c # percent_decode [a]"
| "percent_decode (c # a # b # r) =
     (if c = 0x25 then (hex_value a * 16 + hex_value b) # percent_decode r
      else unat c # percent_decode (a # b # r))"

text \<open>
  The lower-casing of the examples: on strings whose only cased letters are the ASCII ones it
  is the host's \<open>toLowerCase\<close>.
\<close>

definition ascii_lower :: "js_string \<Rightarrow> js_string" where
  "ascii_lower s = map (\<lambda>u. if 0x41 \<le> u \<and> u \<le> 0x5A then u + 0x20 else u) s"

text \<open>The item array of category \<open>c\<close> is an array of the heap.\<close>

definition category_in_heap :: "menu \<Rightarrow> js_string \<Rightarrow> heap \<Rightarrow> bool" where
  "category_in_heap menuData c h =
     (case menuData c of
        None \<Rightarrow> True
      | Some categoryData \<Rightarrow>
          (case items categoryData of None \<Rightarrow> True | Some r \<Rightarrow> r < length h))"

text \<open>
  A catalog for the examples: the category \<open>mains\<close> of the specification's scenario, and a
  category \<open>grill\<close> with two items of equal price, one of them with localized texts.
\<close>

definition hawawshi_ar :: js_string where
  "hawawshi_ar =
     [0x062D, 0x0648, 0x0627, 0x0648, 0x0634, 0x064A]"

definition minced_ar :: js_string where
  "minced_ar =
     [0x0645, 0x0641, 0x0631, 0x0648, 0x0645]"

definition minced_meat_ar :: js_string where
  "minced_meat_ar = [0x0644, 0x062D, 0x0645, 0x0020] @ minced_ar"

definition hawawshi :: item where
  "hawawshi = \<lparr>name = Some (ascii ''Hawawshi''), name_ar = Some hawawshi_ar,
               description = Some (ascii ''Spiced minced MEAT in bread''),
               description_ar = Some minced_meat_ar, image_file = Some (ascii ''hawawshi.jpg''),
               price = Num 45\<rparr>"

definition example_menu :: menu where
  "example_menu c =
     (if c = ascii ''mains''
      then Some \<lparr>category_name = Some (ascii ''Mains''), category_name_ar = None, heroImage = None,
                 items = Some 0\<rparr>
      else if c = ascii ''grill''
      then Some \<lparr>category_name = Some (ascii ''Grill''), category_name_ar = None, heroImage = None,
                 items = Some 1\<rparr>
      else None)"

definition example_heap :: heap where
  "example_heap = [[koshari, fattah], [fattah, koshari, hawawshi]]"


text \<open>Two orders for the examples, and one whose notes are a lone surrogate.\<close>

definition order_en :: state where
  "order_en = (run [AddToCart (Some koshari) None, AddToCart (Some fattah) (Some 2)]
                 initial_state)\<lparr>language := ascii ''en'', orderNotes := ascii ''no onions''\<rparr>"

definition order_ar :: state where
  "order_ar = run [AddToCart (Some hawawshi) (Some 3)] initial_state"

definition order_lone_surrogate :: state where
  "order_lone_surrogate = order_ar\<lparr>orderNotes := [0xD83D]\<rparr>"

section \<open>Total price\<close>

lemma foldl_add_sum_list:
  "foldl (\<lambda>s i. s + f i) (a::int) xs = a + sum_list (map f xs)"
  by (induction xs arbitrary: a) simp_all

lemma term_is_line_total: "opt_or0 (price l) * or0 (quantity l) = line_total l"
  by (simp add: opt_or0_def or0_def line_total_def split: option.split)

lemma getTotalPrice_sum: "getTotalPrice st = (\<Sum>l\<leftarrow>cart st. line_total l)"
  by (simp add: getTotalPrice_def foldl_add_sum_list term_is_line_total)

text \<open>
  Claim C1. In every cart state reached by a finite sequence of addToCart, updateQuantity,
  removeFromCart and clearCart operations (from the empty cart of the page, or from any other
  state), getTotalPrice is the sum over the cart lines of quantity times unit price, where a
  missing unit price counts as 0.
\<close>

theorem getTotalPrice_reachable:
  "getTotalPrice (run acts initial_state) =
     (\<Sum>l\<leftarrow>cart (run acts initial_state). quantity l * (case price l of None \<Rightarrow> 0 | Some p \<Rightarrow> p))
   \<and> getTotalPrice (run acts st) =
     (\<Sum>l\<leftarrow>cart (run acts st). quantity l * (case price l of None \<Rightarrow> 0 | Some p \<Rightarrow> p))"
  by (simp add: getTotalPrice_sum line_total_def)

theorem getTotalPrice_reachable_witness:
  "getTotalPrice (run [AddToCart (Some koshari) None, AddToCart (Some fattah) (Some 2)]
                   initial_state) = 205"
  using getTotalPrice_reachable
          [of "[AddToCart (Some koshari) None, AddToCart (Some fattah) (Some 2)]" initial_state]
  by (simp add: run_def addToCart_def initial_state_def koshari_def fattah_def ascii_def cartPrice_def
        new_line_def or0_def)

section \<open>Cart invariant\<close>

lemma find_name_None: "(find (\<lambda>c. name c = n) xs = None) = (n \<notin> name ` set xs)"
  by (induction xs) auto

lemma name_upd_comp:
  "(name \<circ> (\<lambda>i. if name i = n then i\<lparr>quantity := f i\<rparr> else i)) = name"
  by (rule ext) simp

lemma distinct_filter_names: "distinct (map name xs) \<Longrightarrow> distinct (map name (filter P xs))"
  by (induction xs) auto

lemma distinct_addToCart:
  "distinct (map name (cart st)) \<Longrightarrow> distinct (map name (cart (addToCart it q st)))"
  by (auto simp: addToCart_def Let_def new_line_def name_upd_comp find_name_None
           split: option.splits)

lemma distinct_removeFromCart:
  "distinct (map name (cart st)) \<Longrightarrow> distinct (map name (cart (removeFromCart n st)))"
  by (simp add: removeFromCart_def distinct_filter_names)

lemma distinct_updateQuantity:
  "distinct (map name (cart st)) \<Longrightarrow> distinct (map name (cart (updateQuantity n q st)))"
  by (simp add: updateQuantity_def distinct_removeFromCart name_upd_comp)

lemma distinct_apply_action:
  "distinct (map name (cart st)) \<Longrightarrow> distinct (map name (cart (apply_action st a)))"
  by (cases a)
     (simp_all add: distinct_addToCart distinct_removeFromCart distinct_updateQuantity
        clearCart_def)

lemma positive_apply_action:
  "list_all (\<lambda>l. 0 < quantity l) (cart st) \<Longrightarrow> positive_add a \<Longrightarrow>
     list_all (\<lambda>l. 0 < quantity l) (cart (apply_action st a))"
  by (cases a)
     (auto simp: addToCart_def Let_def new_line_def removeFromCart_def updateQuantity_def
        clearCart_def list_all_iff split: option.splits)

lemma distinct_foldl:
  "distinct (map name (cart st)) \<Longrightarrow> distinct (map name (cart (foldl apply_action st acts)))"
  by (induction acts arbitrary: st) (simp_all add: distinct_apply_action)

lemma positive_foldl:
  "list_all (\<lambda>l. 0 < quantity l) (cart st) \<Longrightarrow> list_all positive_add acts \<Longrightarrow>
     list_all (\<lambda>l. 0 < quantity l) (cart (foldl apply_action st acts))"
  by (induction acts arbitrary: st) (simp_all add: positive_apply_action)

text \<open>
  Claim C3, as stated, fails: \<open>addToCart\<close> does not check its quantity, so from the empty cart
  the call \<open>addToCart(koshari, 0)\<close> leaves a line with quantity 0.
\<close>

theorem cart_inv_counterexample:
  "\<not> cart_inv (cart (run [AddToCart (Some koshari) (Some 0)] initial_state))"
  by (simp add: run_def addToCart_def initial_state_def koshari_def ascii_def cartPrice_def new_line_def
        or0_def cart_inv_def)

text \<open>
  Claim C3, amended. In every cart state reached from the empty cart by a sequence of
  addToCart, updateQuantity, removeFromCart and clearCart operations with arbitrary arguments,
  the cart lines are unique by name; and when every addToCart of the sequence has a positive
  quantity (or the default 1), no line has a quantity \<open>\<le> 0\<close>, whatever the arguments of the
  other operations are.
\<close>

theorem cart_inv_reachable:
  "distinct (map name (cart (run acts initial_state)))
   \<and> (list_all positive_add acts \<longrightarrow> cart_inv (cart (run acts initial_state)))"
  using distinct_foldl [of initial_state acts] positive_foldl [of initial_state acts]
  by (simp add: run_def cart_inv_def initial_state_def)

theorem cart_inv_reachable_witness:
  "list_all positive_add
     [AddToCart (Some koshari) None, UpdateQuantity (Some (ascii ''Koshari'')) 3,
      AddToCart (Some fattah) (Some 2), AddToCart (Some koshari) None,
      UpdateQuantity (Some (ascii ''Fattah'')) (- 1)]
   \<and> cart_inv (cart (run
        [AddToCart (Some koshari) None, UpdateQuantity (Some (ascii ''Koshari'')) 3,
         AddToCart (Some fattah) (Some 2), AddToCart (Some koshari) None,
         UpdateQuantity (Some (ascii ''Fattah'')) (- 1)] initial_state))
   \<and> map quantity (cart (run
        [AddToCart (Some koshari) None, UpdateQuantity (Some (ascii ''Koshari'')) 3,
         AddToCart (Some fattah) (Some 2), AddToCart (Some koshari) None,
         UpdateQuantity (Some (ascii ''Fattah'')) (- 1)] initial_state)) = [4]"
  using cart_inv_reachable
          [of "[AddToCart (Some koshari) None, UpdateQuantity (Some (ascii ''Koshari'')) 3,
                AddToCart (Some fattah) (Some 2), AddToCart (Some koshari) None,
                UpdateQuantity (Some (ascii ''Fattah'')) (- 1)]"]
  by (simp add: run_def addToCart_def updateQuantity_def removeFromCart_def initial_state_def
        koshari_def fattah_def ascii_def cartPrice_def new_line_def or0_def)

section \<open>Updating and removing\<close>

text \<open>
  Claim C4. For every state and name, \<open>updateQuantity(name, 0)\<close> and \<open>removeFromCart(name)\<close>
  leave the same state; so does \<open>updateQuantity(name, q)\<close> for every \<open>q \<le> 0\<close>. For \<open>q > 0\<close> the
  cart keeps its lines in their order, each line named \<open>name\<close> has exactly the quantity \<open>q\<close>
  (whatever it had before) and is otherwise as it was, every other line is unchanged, and
  notes and language are untouched.
\<close>

theorem updateQuantity_remove_or_set:
  "updateQuantity n 0 st = removeFromCart n st
   \<and> (q \<le> 0 \<longrightarrow> updateQuantity n q st = removeFromCart n st)
   \<and> (0 < q \<longrightarrow>
        orderNotes (updateQuantity n q st) = orderNotes st
      \<and> language (updateQuantity n q st) = language st
      \<and> length (cart (updateQuantity n q st)) = length (cart st)
      \<and> (\<forall>i < length (cart st).
            (name (cart st ! i) = n \<longrightarrow>
               cart (updateQuantity n q st) ! i = (cart st ! i)\<lparr>quantity := q\<rparr>)
          \<and> (name (cart st ! i) \<noteq> n \<longrightarrow>
               cart (updateQuantity n q st) ! i = cart st ! i)))"
  by (simp add: updateQuantity_def)

theorem updateQuantity_remove_or_set_witness:
  "map quantity (cart (updateQuantity (Some (ascii ''Fattah'')) 5
      (run [AddToCart (Some koshari) None, AddToCart (Some fattah) (Some 2)] initial_state)))
     = [1, 5]
   \<and> updateQuantity (Some (ascii ''Fattah'')) (- 2)
        (run [AddToCart (Some koshari) None, AddToCart (Some fattah) (Some 2)] initial_state)
     = removeFromCart (Some (ascii ''Fattah''))
        (run [AddToCart (Some koshari) None, AddToCart (Some fattah) (Some 2)] initial_state)
   \<and> map name (cart (removeFromCart (Some (ascii ''Fattah''))
        (run [AddToCart (Some koshari) None, AddToCart (Some fattah) (Some 2)] initial_state)))
     = [Some (ascii ''Koshari'')]"
  using updateQuantity_remove_or_set
          [of "Some (ascii ''Fattah'')"
              "run [AddToCart (Some koshari) None, AddToCart (Some fattah) (Some 2)] initial_state"
              "- 2"]
        updateQuantity_remove_or_set
          [of "Some (ascii ''Fattah'')"
              "run [AddToCart (Some koshari) None, AddToCart (Some fattah) (Some 2)] initial_state"
              5]
  by (simp add: run_def addToCart_def updateQuantity_def removeFromCart_def initial_state_def
        koshari_def fattah_def ascii_def cartPrice_def new_line_def or0_def)

section \<open>Adding the same item twice\<close>








lemma foldl_min_Min: "foldl min (x::int) ys = Min (set (x # ys))"
proof -
  have "(\<lambda>a b. min b a) = (min :: int \<Rightarrow> int \<Rightarrow> int)"
    by (intro ext) (simp add: min.commute)
  then show ?thesis
    by (simp add: Min.set_eq_fold foldl_conv_fold del: set_simps)
qed

lemma foldl_max_Max: "foldl max (x::int) ys = Max (set (x # ys))"
proof -
  have "(\<lambda>a b. max b a) = (max :: int \<Rightarrow> int \<Rightarrow> int)"
    by (intro ext) (simp add: max.commute)
  then show ?thesis
    by (simp add: Max.set_eq_fold foldl_conv_fold del: set_simps)
qed




section \<open>Properties of price formatting\<close>

lemma Math_min_pair: "a \<le> b \<Longrightarrow> Math_min [a, b] = Fin a"
  by (simp add: Math_min_def)

lemma Math_max_pair: "a \<le> b \<Longrightarrow> Math_max [a, b] = Fin b"
  by (simp add: Math_max_def)

lemma Math_min_Min: "xs \<noteq> [] \<Longrightarrow> Math_min xs = Fin (Min (set xs))"
  by (cases xs) (simp_all add: Math_min_def foldl_min_Min del: set_simps)

lemma Math_max_Max: "xs \<noteq> [] \<Longrightarrow> Math_max xs = Fin (Max (set xs))"
  by (cases xs) (simp_all add: Math_max_def foldl_max_Max del: set_simps)

lemma sublist_mid: "sublist m (p @ m @ s)"
  by (rule sublist_appendI)

lemma sublist_last: "sublist m (p @ m)"
  by (rule sublist_append_leftI)

text \<open>
  Claim C8. For every range price \<open>[a, b]\<close> with \<open>a < b\<close> and every language, both variants of
  formatPrice return the currency literal of the language, the rendering of \<open>a\<close>, \<open>" - "\<close>
  and the rendering of \<open>b\<close>, so the result contains both renderings: the locale's in the first
  variant, the decimal numeral in the second. For \<open>a = b\<close> the result is \<open>"EGP "\<close> and the one
  rendering of \<open>a\<close>.
\<close>

theorem formatPrice_range:
  "(a < b \<longrightarrow>
      formatPrice toLocaleString (Range [a, b]) lang
        = (if lang = ascii ''en'' then ascii ''EGP'' else currency_ar) @ ascii '' ''
            @ toLocaleString (Fin a) @ ascii '' - '' @ toLocaleString (Fin b)
    \<and> sublist (toLocaleString (Fin a)) (formatPrice toLocaleString (Range [a, b]) lang)
    \<and> sublist (toLocaleString (Fin b)) (formatPrice toLocaleString (Range [a, b]) lang)
    \<and> formatPrice_v2 (Range [a, b]) lang
        = (if lang = ascii ''en'' then ascii ''EGP'' else currency_ar) @ ascii '' ''
            @ int_to_string a @ ascii '' - '' @ int_to_string b
    \<and> sublist (int_to_string a) (formatPrice_v2 (Range [a, b]) lang)
    \<and> sublist (int_to_string b) (formatPrice_v2 (Range [a, b]) lang))
   \<and> formatPrice toLocaleString (Range [a, a]) lang = ascii ''EGP '' @ toLocaleString (Fin a)
   \<and> formatPrice_v2 (Range [a, a]) lang = ascii ''EGP '' @ int_to_string a"
proof (intro conjI impI)
  assume lt: "a < b"
  show f1: "formatPrice toLocaleString (Range [a, b]) lang
        = (if lang = ascii ''en'' then ascii ''EGP'' else currency_ar) @ ascii '' ''
            @ toLocaleString (Fin a) @ ascii '' - '' @ toLocaleString (Fin b)"
    using lt by (simp add: formatPrice_def ascii_def Math_min_pair Math_max_pair)
  show "sublist (toLocaleString (Fin a)) (formatPrice toLocaleString (Range [a, b]) lang)"
    unfolding f1 using sublist_mid [of "toLocaleString (Fin a)"
        "(if lang = ascii ''en'' then ascii ''EGP'' else currency_ar) @ ascii '' ''" "(ascii '' - '') @ toLocaleString (Fin b)"]
    by simp
  show "sublist (toLocaleString (Fin b)) (formatPrice toLocaleString (Range [a, b]) lang)"
    unfolding f1 using sublist_last [of "toLocaleString (Fin b)"
        "(if lang = ascii ''en'' then ascii ''EGP'' else currency_ar) @ ascii '' '' @ toLocaleString (Fin a) @ ascii '' - ''"]
    by simp
  show f2: "formatPrice_v2 (Range [a, b]) lang
        = (if lang = ascii ''en'' then ascii ''EGP'' else currency_ar) @ ascii '' ''
            @ int_to_string a @ ascii '' - '' @ int_to_string b"
    using lt by (simp add: formatPrice_v2_def ascii_def Math_min_pair Math_max_pair)
  show "sublist (int_to_string a) (formatPrice_v2 (Range [a, b]) lang)"
    unfolding f2 using sublist_mid [of "int_to_string a"
        "(if lang = ascii ''en'' then ascii ''EGP'' else currency_ar) @ ascii '' ''" "(ascii '' - '') @ int_to_string b"]
    by simp
  show "sublist (int_to_string b) (formatPrice_v2 (Range [a, b]) lang)"
    unfolding f2 using sublist_last [of "int_to_string b"
        "(if lang = ascii ''en'' then ascii ''EGP'' else currency_ar) @ ascii '' '' @ int_to_string a @ ascii '' - ''"]
    by simp
next
  show "formatPrice toLocaleString (Range [a, a]) lang = ascii ''EGP '' @ toLocaleString (Fin a)"
    by (simp add: formatPrice_def ascii_def Math_min_pair Math_max_pair)
  show "formatPrice_v2 (Range [a, a]) lang = ascii ''EGP '' @ int_to_string a"
    by (simp add: formatPrice_v2_def ascii_def Math_min_pair Math_max_pair)
qed

theorem formatPrice_range_witness:
  "(80::int) < 120
   \<and> formatPrice ToString (Range [80, 120]) (ascii ''en'') = ascii ''EGP 80 - 120''
   \<and> formatPrice_v2 (Range [80, 120]) (ascii ''ar'') = currency_ar @ ascii '' 80 - 120''
   \<and> formatPrice_v2 (Range [80, 80]) (ascii ''ar'') = ascii ''EGP 80''"
  using formatPrice_range [of 80 120 ToString "(ascii ''en'')"] formatPrice_range [of 80 120 ToString "(ascii ''ar'')"]
    formatPrice_range [of 80 80 ToString "(ascii ''ar'')"]
  by (simp add: int_to_string_def ascii_def)

text \<open>
  Claim C10. For every scalar price and every non-empty array price whose minimum equals its
  maximum, both variants of formatPrice return a string that starts with \<open>"EGP "\<close>, the same
  string for every language. A result that starts with the Arabic currency literal comes from
  a language other than \<open>'en'\<close> and from the missing or empty-price branch or the
  unequal-bounds branch; in the second variant, whose missing-price branch says "price on
  request", from the unequal-bounds branch alone.
\<close>

theorem formatPrice_currency_literal:
  "formatPrice toLocaleString (Num n) lang = ascii ''EGP '' @ toLocaleString (Fin n)
   \<and> formatPrice_v2 (Num n) lang = ascii ''EGP '' @ int_to_string n
   \<and> (xs \<noteq> [] \<and> Math_min xs = Math_max xs \<longrightarrow>
        formatPrice toLocaleString (Range xs) lang = ascii ''EGP '' @ toLocaleString (Math_min xs)
      \<and> formatPrice_v2 (Range xs) lang = ascii ''EGP '' @ ToString (Math_min xs))
   \<and> (prefix currency_ar (formatPrice toLocaleString p lang) \<longrightarrow>
        lang \<noteq> ascii ''en''
      \<and> (p = Missing \<or> p = Range []
          \<or> (\<exists>ys. p = Range ys \<and> ys \<noteq> [] \<and> Math_min ys \<noteq> Math_max ys)))
   \<and> (prefix currency_ar (formatPrice_v2 p lang) \<longrightarrow>
        lang \<noteq> ascii ''en'' \<and> (\<exists>ys. p = Range ys \<and> ys \<noteq> [] \<and> Math_min ys \<noteq> Math_max ys))"
proof (intro conjI impI)
  show "formatPrice toLocaleString (Num n) lang = ascii ''EGP '' @ toLocaleString (Fin n)"
    by (simp add: formatPrice_def ascii_def)
  show "formatPrice_v2 (Num n) lang = ascii ''EGP '' @ int_to_string n"
    by (simp add: formatPrice_v2_def ascii_def)
next
  assume "xs \<noteq> [] \<and> Math_min xs = Math_max xs"
  then show "formatPrice toLocaleString (Range xs) lang = ascii ''EGP '' @ toLocaleString (Math_min xs)"
    and "formatPrice_v2 (Range xs) lang = ascii ''EGP '' @ ToString (Math_min xs)"
    by (simp_all add: formatPrice_def formatPrice_v2_def ascii_def)
next
  assume pre: "prefix currency_ar (formatPrice toLocaleString p lang)"
  show "lang \<noteq> ascii ''en''"
    using pre by (cases p) (auto simp: formatPrice_def ascii_def currency_ar_def Let_def split: if_splits)
  show "p = Missing \<or> p = Range [] \<or> (\<exists>ys. p = Range ys \<and> ys \<noteq> [] \<and> Math_min ys \<noteq> Math_max ys)"
    using pre by (cases p) (auto simp: formatPrice_def ascii_def currency_ar_def Let_def split: if_splits)
next
  assume pre: "prefix currency_ar (formatPrice_v2 p lang)"
  show "lang \<noteq> ascii ''en''"
    using pre by (cases p) (auto simp: formatPrice_v2_def ascii_def currency_ar_def on_request_ar_def Let_def split: if_splits)
  show "\<exists>ys. p = Range ys \<and> ys \<noteq> [] \<and> Math_min ys \<noteq> Math_max ys"
    using pre by (cases p) (auto simp: formatPrice_v2_def ascii_def currency_ar_def on_request_ar_def Let_def split: if_splits)
qed

theorem formatPrice_currency_literal_witness:
  "[80, 80] \<noteq> [] \<and> Math_min [80, 80] = Math_max [80, 80]
   \<and> formatPrice ToString (Range [80, 80]) (ascii ''ar'') = ascii ''EGP 80''
   \<and> formatPrice_v2 (Range [80, 80]) (ascii ''ar'') = ascii ''EGP 80''
   \<and> formatPrice ToString (Num 45) (ascii ''ar'') = ascii ''EGP 45''
   \<and> formatPrice_v2 (Num 45) (ascii ''en'') = ascii ''EGP 45''
   \<and> prefix currency_ar (formatPrice ToString Missing (ascii ''ar''))
   \<and> prefix currency_ar (formatPrice_v2 (Range [80, 120]) (ascii ''ar''))
   \<and> formatPrice_v2 Missing (ascii ''ar'') = on_request_ar"
  using formatPrice_currency_literal [of ToString 45 "(ascii ''ar'')" "[80, 80]" Missing]
    formatPrice_currency_literal [of ToString 45 "(ascii ''en'')" "[80, 80]" "Range [80, 120]"]
  by (simp add: int_to_string_def ascii_def currency_ar_def on_request_ar_def Math_min_def Math_max_def formatPrice_def formatPrice_v2_def)

section \<open>The sort of the host language\<close>

lemma set_insert_sorted: "set (insert_sorted cmp x ys) = insert x (set ys)"
  by (induction ys) auto

lemma mset_insert_sorted: "mset (insert_sorted cmp x ys) = add_mset x (mset ys)"
  by (induction ys) simp_all

lemma mset_Array_sort: "mset (Array_sort cmp xs) = mset xs"
  by (induction xs) (simp_all add: mset_insert_sorted)

lemma sorted_insert_sorted:
  assumes le: "\<And>a b. (\<not> is_positive (cmp a b)) = le a b"
    and tr: "\<And>a b c. le a b \<Longrightarrow> le b c \<Longrightarrow> le a c"
    and tot: "\<And>a b. le a b \<or> le b a"
  shows "sorted_wrt le ys \<Longrightarrow> sorted_wrt le (insert_sorted cmp x ys)"
proof (induction ys)
  case Nil
  then show ?case by simp
next
  case (Cons y ys)
  show ?case
  proof (cases "is_positive (cmp x y)")
    case True
    then have "\<not> le x y" using le [of x y] by simp
    then have yx: "le y x" using tot [of x y] by simp
    have "sorted_wrt le (insert_sorted cmp x ys)"
      using Cons by simp
    moreover have "\<forall>z\<in>set (insert_sorted cmp x ys). le y z"
      using Cons.prems yx by (simp add: set_insert_sorted)
    ultimately show ?thesis using True by simp
  next
    case False
    then have xy: "le x y" using le [of x y] by simp
    have "\<forall>z\<in>set ys. le x z"
      using Cons.prems xy tr by auto
    then show ?thesis using False xy Cons.prems by simp
  qed
qed

lemma sorted_Array_sort:
  assumes "\<And>a b. (\<not> is_positive (cmp a b)) = le a b"
    and "\<And>a b c. le a b \<Longrightarrow> le b c \<Longrightarrow> le a c"
    and "\<And>a b. le a b \<or> le b a"
  shows "sorted_wrt le (Array_sort cmp xs)"
proof (induction xs)
  case Nil
  show ?case by simp
next
  case (Cons x xs)
  from assms Cons show ?case
    using sorted_insert_sorted [of cmp le "Array_sort cmp xs" x] by simp
qed

lemma filter_insert_sorted:
  assumes "\<And>a b. P a \<Longrightarrow> P b \<Longrightarrow> \<not> is_positive (cmp a b)"
  shows "filter P (insert_sorted cmp x ys) = filter P (x # ys)"
  using assms by (induction ys) auto

lemma filter_Array_sort:
  assumes "\<And>a b. P a \<Longrightarrow> P b \<Longrightarrow> \<not> is_positive (cmp a b)"
  shows "filter P (Array_sort cmp xs) = filter P xs"
  using assms by (induction xs) (simp_all add: filter_insert_sorted)

lemma not_positive_sub: "a \<noteq> NaN \<Longrightarrow> b \<noteq> NaN \<Longrightarrow> (\<not> is_positive (js_sub a b)) = num_le a b"
  by (cases a; cases b) auto

lemma not_positive_sub_self: "\<not> is_positive (js_sub k k)"
  by (cases k) auto

lemma num_le_trans: "num_le a b \<Longrightarrow> num_le b c \<Longrightarrow> num_le a c"
  by (cases a; cases b; cases c) auto

lemma num_le_total: "a \<noteq> NaN \<Longrightarrow> b \<noteq> NaN \<Longrightarrow> num_le a b \<or> num_le b a"
  by (cases a; cases b) auto

lemma low_key_not_NaN: "low_key a \<noteq> NaN"
  by (simp add: low_key_def Math_min_def split: price_value.split list.split)

lemma high_key_not_NaN: "high_key a \<noteq> NaN"
  by (simp add: high_key_def Math_max_def split: price_value.split list.split)

lemma sorted_low_high:
  "sorted_wrt (\<lambda>a b. num_le (low_key a) (low_key b)) (Array_sort compare_low_high xs)"
proof (rule sorted_Array_sort)
  show "(\<not> is_positive (compare_low_high a b)) = num_le (low_key a) (low_key b)" for a b
    by (simp add: compare_low_high_def not_positive_sub low_key_not_NaN)
  show "num_le (low_key a) (low_key b) \<Longrightarrow> num_le (low_key b) (low_key c) \<Longrightarrow>
        num_le (low_key a) (low_key c)" for a b c
    by (rule num_le_trans)
  show "num_le (low_key a) (low_key b) \<or> num_le (low_key b) (low_key a)" for a b
    by (simp add: num_le_total low_key_not_NaN)
qed

lemma sorted_high_low:
  "sorted_wrt (\<lambda>a b. num_le (high_key b) (high_key a)) (Array_sort compare_high_low xs)"
proof (rule sorted_Array_sort)
  show "(\<not> is_positive (compare_high_low a b)) = num_le (high_key b) (high_key a)" for a b
    by (simp add: compare_high_low_def not_positive_sub high_key_not_NaN)
  show "num_le (high_key b) (high_key a) \<Longrightarrow> num_le (high_key c) (high_key b) \<Longrightarrow>
        num_le (high_key c) (high_key a)" for a b c
    using num_le_trans by blast
  show "num_le (high_key b) (high_key a) \<or> num_le (high_key a) (high_key b)" for a b
    by (simp add: num_le_total high_key_not_NaN)
qed

lemma stable_low_high:
  "filter (\<lambda>x. low_key x = k) (Array_sort compare_low_high xs) = filter (\<lambda>x. low_key x = k) xs"
proof (rule filter_Array_sort)
  show "\<not> is_positive (compare_low_high a b)" if "low_key a = k" "low_key b = k" for a b
    using that by (simp add: compare_low_high_def not_positive_sub_self)
qed

lemma stable_high_low:
  "filter (\<lambda>x. high_key x = k) (Array_sort compare_high_low xs) = filter (\<lambda>x. high_key x = k) xs"
proof (rule filter_Array_sort)
  show "\<not> is_positive (compare_high_low a b)" if "high_key a = k" "high_key b = k" for a b
    using that by (simp add: compare_high_low_def not_positive_sub_self)
qed

section \<open>Result of the filter and sort engine\<close>

lemma filteredItems_eq:
  "filteredItems toLowerCase menuData cat q ps h =
     (let xs = (if q \<noteq> [] then filter (matches_query toLowerCase q) (catalog_items_of menuData cat h)
                else catalog_items_of menuData cat h)
      in if ps = ascii ''low-high'' then Array_sort compare_low_high xs
         else if ps = ascii ''high-low'' then Array_sort compare_high_low xs
         else xs)"
  by (simp add: filteredItems_def getFilteredAndSortedItems_def catalog_items_of_def alloc_def
        Let_def nth_append split: option.split)

lemma sort_mode_literals:
  "ascii ''default'' \<noteq> ascii ''low-high''"
  "ascii ''default'' \<noteq> ascii ''high-low''"
  "ascii ''high-low'' \<noteq> ascii ''low-high''"
  by (simp_all add: ascii_def)

lemma heap_frame:
  "take (length h) (snd (getFilteredAndSortedItems toLowerCase menuData cat q ps h)) = h
   \<and> length h \<le> fst (getFilteredAndSortedItems toLowerCase menuData cat q ps h)
   \<and> fst (getFilteredAndSortedItems toLowerCase menuData cat q ps h)
        < length (snd (getFilteredAndSortedItems toLowerCase menuData cat q ps h))"
  by (simp add: getFilteredAndSortedItems_def alloc_def Let_def split: option.split)

lemma Math_min_Nil: "Math_min [] = PosInf"
  by (simp add: Math_min_def)

lemma Math_max_Nil: "Math_max [] = NegInf"
  by (simp add: Math_max_def)

lemma low_key_cases:
  "low_key i =
     (case price i of
        Range xs \<Rightarrow> (if xs = [] then PosInf else Fin (Min (set xs)))
      | Num n \<Rightarrow> Fin n
      | Missing \<Rightarrow> Fin 0)"
  by (auto simp: low_key_def Math_min_Min Math_min_Nil or0_def split: price_value.split)

lemma high_key_cases:
  "high_key i =
     (case price i of
        Range xs \<Rightarrow> (if xs = [] then NegInf else Fin (Max (set xs)))
      | Num n \<Rightarrow> Fin n
      | Missing \<Rightarrow> Fin 0)"
  by (auto simp: high_key_def Math_max_Max Math_max_Nil or0_def split: price_value.split)

lemma example_low_high:
  "map name (filteredItems ascii_lower example_menu (ascii ''mains'') [] (ascii ''low-high'') example_heap)
     = [Some (ascii ''Koshari''), Some (ascii ''Fattah'')]"
  "map name (filteredItems ascii_lower example_menu (ascii ''grill'') [] (ascii ''low-high'') example_heap)
     = [Some (ascii ''Koshari''), Some (ascii ''Hawawshi''), Some (ascii ''Fattah'')]"
  "map name (filteredItems ascii_lower example_menu (ascii ''grill'') [] (ascii ''high-low'') example_heap)
     = [Some (ascii ''Fattah''), Some (ascii ''Koshari''), Some (ascii ''Hawawshi'')]"
  "map name (filteredItems ascii_lower example_menu (ascii ''grill'') [] (ascii ''default'') example_heap)
     = [Some (ascii ''Fattah''), Some (ascii ''Koshari''), Some (ascii ''Hawawshi'')]"
  by code_simp+

text \<open>
  Claim C5. For every catalog, category and query: the mode \<open>default\<close> returns the (filtered)
  items in catalog order; \<open>low-high\<close> returns the same items in ascending order of the minimum
  of a price range (the scalar price, 0 when the price is absent), \<open>high-low\<close> in descending
  order of the maximum (the scalar price, 0 when absent); both sorts are stable, the items of
  each key keep their catalog order. An empty range has the minimum \<open>Infinity\<close> and the
  maximum \<open>-Infinity\<close>, so such an item comes last in both modes.
\<close>

theorem sort_modes:
  "filteredItems toLowerCase menuData cat q (ascii ''default'') h =
     (if q \<noteq> [] then filter (matches_query toLowerCase q) (catalog_items_of menuData cat h)
      else catalog_items_of menuData cat h)
   \<and> sorted_wrt (\<lambda>a b. num_le (low_key a) (low_key b))
        (filteredItems toLowerCase menuData cat q (ascii ''low-high'') h)
   \<and> mset (filteredItems toLowerCase menuData cat q (ascii ''low-high'') h)
        = mset (filteredItems toLowerCase menuData cat q (ascii ''default'') h)
   \<and> (\<forall>k. filter (\<lambda>x. low_key x = k) (filteredItems toLowerCase menuData cat q (ascii ''low-high'') h)
          = filter (\<lambda>x. low_key x = k) (filteredItems toLowerCase menuData cat q (ascii ''default'') h))
   \<and> sorted_wrt (\<lambda>a b. num_le (high_key b) (high_key a))
        (filteredItems toLowerCase menuData cat q (ascii ''high-low'') h)
   \<and> mset (filteredItems toLowerCase menuData cat q (ascii ''high-low'') h)
        = mset (filteredItems toLowerCase menuData cat q (ascii ''default'') h)
   \<and> (\<forall>k. filter (\<lambda>x. high_key x = k) (filteredItems toLowerCase menuData cat q (ascii ''high-low'') h)
          = filter (\<lambda>x. high_key x = k) (filteredItems toLowerCase menuData cat q (ascii ''default'') h))
   \<and> low_key i =
        (case price i of
           Range xs \<Rightarrow> (if xs = [] then PosInf else Fin (Min (set xs)))
         | Num n \<Rightarrow> Fin n
         | Missing \<Rightarrow> Fin 0)
   \<and> high_key i =
        (case price i of
           Range xs \<Rightarrow> (if xs = [] then NegInf else Fin (Max (set xs)))
         | Num n \<Rightarrow> Fin n
         | Missing \<Rightarrow> Fin 0)"
proof (intro conjI allI)
  show "low_key i =
        (case price i of
           Range xs \<Rightarrow> (if xs = [] then PosInf else Fin (Min (set xs)))
         | Num n \<Rightarrow> Fin n
         | Missing \<Rightarrow> Fin 0)"
    by (rule low_key_cases)
  show "high_key i =
        (case price i of
           Range xs \<Rightarrow> (if xs = [] then NegInf else Fin (Max (set xs)))
         | Num n \<Rightarrow> Fin n
         | Missing \<Rightarrow> Fin 0)"
    by (rule high_key_cases)
qed (simp_all add: filteredItems_eq sort_mode_literals sorted_low_high sorted_high_low mset_Array_sort
       stable_low_high stable_high_low)

theorem sort_modes_witness:
  "sorted_wrt (\<lambda>a b. num_le (low_key a) (low_key b))
     (filteredItems ascii_lower example_menu (ascii ''grill'') [] (ascii ''low-high'') example_heap)
   \<and> map name (filteredItems ascii_lower example_menu (ascii ''grill'') [] (ascii ''low-high'') example_heap)
        = [Some (ascii ''Koshari''), Some (ascii ''Hawawshi''), Some (ascii ''Fattah'')]
   \<and> map name (filteredItems ascii_lower example_menu (ascii ''grill'') [] (ascii ''high-low'') example_heap)
        = [Some (ascii ''Fattah''), Some (ascii ''Koshari''), Some (ascii ''Hawawshi'')]
   \<and> map name (filteredItems ascii_lower example_menu (ascii ''grill'') [] (ascii ''default'') example_heap)
        = [Some (ascii ''Fattah''), Some (ascii ''Koshari''), Some (ascii ''Hawawshi'')]
   \<and> map name (filteredItems ascii_lower example_menu (ascii ''mains'') [] (ascii ''low-high'') example_heap)
        = [Some (ascii ''Koshari''), Some (ascii ''Fattah'')]"
proof -
  have "sorted_wrt (\<lambda>a b. num_le (low_key a) (low_key b))
     (filteredItems ascii_lower example_menu (ascii ''grill'') [] (ascii ''low-high'') example_heap)"
    using sort_modes [of ascii_lower example_menu "(ascii ''grill'')" "[]" example_heap koshari] by blast
  then show ?thesis
    by (simp add: example_low_high)
qed

section \<open>The filter\<close>


text \<open>
  For a lower-casing that works code unit by code unit, containing the query
  case-insensitively is having a contiguous part with the lower-case form of the query.
\<close>

lemma unitwise_lower_substring:
  "sublist (map f q) (map f s) = (\<exists>u. sublist u s \<and> map f u = map f q)"
proof
  assume "sublist (map f q) (map f s)"
  then show "\<exists>u. sublist u s \<and> map f u = map f q"
    using sublist_map_rightE [of "map f q" f s] by metis
next
  assume "\<exists>u. sublist u s \<and> map f u = map f q"
  then obtain u where u: "sublist u s" "map f u = map f q"
    by blast
  then have "sublist (map f u) (map f s)"
    unfolding sublist_def by (metis map_append)
  then show "sublist (map f q) (map f s)"
    using u by simp
qed




lemma example_filter:
  "map name (filteredItems ascii_lower example_menu (ascii ''grill'') (ascii ''meat'')
      (ascii ''high-low'') example_heap) = [Some (ascii ''Hawawshi'')]"
  "map name (filteredItems ascii_lower example_menu (ascii ''grill'') minced_ar
      (ascii ''default'') example_heap) = [Some (ascii ''Hawawshi'')]"
  "filteredItems ascii_lower example_menu (ascii ''grill'') (ascii ''zzz'') (ascii ''low-high'')
      example_heap = []"
  "catalog_items_of example_menu (ascii ''grill'') example_heap = [fattah, koshari, hawawshi]"
  "description_ar hawawshi = Some minced_meat_ar"
  "sublist minced_ar minced_meat_ar"
  "minced_ar \<noteq> []"
  "ascii ''zzz'' \<noteq> []"
  by code_simp+





section \<open>The catalog is not mutated\<close>

lemma example_frame:
  "category_in_heap example_menu (ascii ''grill'') example_heap"
  "map (map name) (snd (getFilteredAndSortedItems ascii_lower example_menu (ascii ''grill'') (ascii ''A'') (ascii ''low-high'')
      example_heap))
     = [[Some (ascii ''Koshari''), Some (ascii ''Fattah'')],
        [Some (ascii ''Fattah''), Some (ascii ''Koshari''), Some (ascii ''Hawawshi'')],
        [Some (ascii ''Fattah''), Some (ascii ''Koshari''), Some (ascii ''Hawawshi'')],
        [Some (ascii ''Koshari''), Some (ascii ''Hawawshi''), Some (ascii ''Fattah'')]]"
  "fst (getFilteredAndSortedItems ascii_lower example_menu (ascii ''grill'') (ascii ''A'') (ascii ''low-high'') example_heap) = 3"
  "length example_heap = 2"
  by code_simp+

text \<open>
  Claim C9. For every catalog, selected category, query and sort mode, a run of the
  filter-and-sort derivation leaves every array that existed before the run as it was, with
  the same items in the same order: the heap after the run is the heap before it followed by
  the arrays the run created. The array it returns is one of the new ones (the sort works on
  the copy), so the item list of every category whose array is in the heap reads the same
  before and after; the catalog itself, a value the function only reads, is not changed.
\<close>

theorem catalog_not_mutated:
  "take (length h) (snd (getFilteredAndSortedItems toLowerCase menuData cat q ps h)) = h
   \<and> (\<forall>r < length h. snd (getFilteredAndSortedItems toLowerCase menuData cat q ps h) ! r = h ! r)
   \<and> length h \<le> fst (getFilteredAndSortedItems toLowerCase menuData cat q ps h)
   \<and> fst (getFilteredAndSortedItems toLowerCase menuData cat q ps h)
        < length (snd (getFilteredAndSortedItems toLowerCase menuData cat q ps h))
   \<and> (category_in_heap menuData c h \<longrightarrow>
        catalog_items_of menuData c (snd (getFilteredAndSortedItems toLowerCase menuData cat q ps h))
          = catalog_items_of menuData c h)"
proof -
  let ?h' = "snd (getFilteredAndSortedItems toLowerCase menuData cat q ps h)"
  have fr: "take (length h) ?h' = h"
    using heap_frame [of h toLowerCase menuData cat q ps] by simp
  have nth: "?h' ! r = h ! r" if "r < length h" for r
  proof -
    have "take (length h) ?h' ! r = ?h' ! r"
      using that by simp
    then show ?thesis using fr by simp
  qed
  have "catalog_items_of menuData c ?h' = catalog_items_of menuData c h"
    if "category_in_heap menuData c h"
    using that nth
    by (auto simp: category_in_heap_def catalog_items_of_def split: option.splits)
  then show ?thesis
    using fr nth heap_frame [of h toLowerCase menuData cat q ps] by blast
qed

theorem catalog_not_mutated_witness:
  "category_in_heap example_menu (ascii ''grill'') example_heap
   \<and> take 2 (snd (getFilteredAndSortedItems ascii_lower example_menu (ascii ''grill'') (ascii ''A'') (ascii ''low-high'')
        example_heap)) = example_heap
   \<and> catalog_items_of example_menu (ascii ''grill'')
        (snd (getFilteredAndSortedItems ascii_lower example_menu (ascii ''grill'') (ascii ''A'') (ascii ''low-high'') example_heap))
       = [fattah, koshari, hawawshi]
   \<and> fst (getFilteredAndSortedItems ascii_lower example_menu (ascii ''grill'') (ascii ''A'') (ascii ''low-high'') example_heap) = 3"
  using catalog_not_mutated [of example_heap ascii_lower example_menu "(ascii ''grill'')" "(ascii ''A'')" "(ascii ''low-high'')" "(ascii ''grill'')"]
  by (simp add: example_frame example_filter)

section \<open>The order message\<close>

lemma foldl_append_concat: "foldl (\<lambda>m i. m @ f i) a xs = a @ concat (map f xs)"
  by (induction xs arbitrary: a) simp_all

lemma unreserved_small: "uri_unreserved u \<Longrightarrow> u < 0x80 \<and> u \<noteq> 0x25"
  by (auto simp: uri_unreserved_def ascii_def)

lemma unreserved_not_surrogate:
  "uri_unreserved u \<Longrightarrow> \<not> is_high_surrogate u \<and> \<not> is_low_surrogate u"
  by (auto simp: uri_unreserved_def ascii_def is_high_surrogate_def is_low_surrogate_def)

lemma followed_by_Inr: "(followed_by p x = Inr r) = (\<exists>t. x = Inr t \<and> r = p @ t)"
  by (cases x) (auto simp: followed_by_def)

lemma followed_by_Inl: "(followed_by p x = Inl e) = (x = Inl e)"
  by (cases x) (auto simp: followed_by_def)

lemma encode_succeeds_iff: "(\<exists>r. encodeURIComponent s = Inr r) = well_formed s"
  by (induction s rule: encodeURIComponent.induct)
     (auto simp: followed_by_Inr unreserved_not_surrogate)

lemma encode_fails_iff: "(encodeURIComponent s = Inl URIError) = (\<not> well_formed s)"
proof -
  have "(encodeURIComponent s = Inl URIError) = (\<not> (\<exists>r. encodeURIComponent s = Inr r))"
    by (cases "encodeURIComponent s") (auto intro: error.exhaust)
  then show ?thesis by (simp add: encode_succeeds_iff)
qed


lemma unat_unit_bound: "unat (u :: code_unit) < 0x10000"
  using unsigned_less [of u, where 'a = nat] by simp

lemma code_point_bound:
  "is_high_surrogate u \<Longrightarrow> is_low_surrogate v \<Longrightarrow> code_point u v < 0x110000"
  by (simp add: is_high_surrogate_def is_low_surrogate_def code_point_def word_le_nat_alt) arith

lemma utf8_octet_bound: "cp < 0x110000 \<Longrightarrow> b \<in> set (utf8 cp) \<Longrightarrow> b < 256"
  by (auto simp: utf8_def split: if_splits)

lemma hex_digit_table:
  "list_all (\<lambda>n. hex_digit n \<in> set (ascii ''0123456789ABCDEF'') \<and> hex_value (hex_digit n) = n)
     [0..<16]"
  by code_simp

lemma hex_digit_facts:
  "n < 16 \<Longrightarrow> hex_digit n \<in> set (ascii ''0123456789ABCDEF'') \<and> hex_value (hex_digit n) = n"
proof -
  assume "n < 16"
  then have "n \<in> set [0..<16]"
    by simp
  then show ?thesis
    using hex_digit_table unfolding list_all_iff by blast
qed

lemma percent_octet_chars:
  "b < 256 \<Longrightarrow> set (percent_octet b) \<subseteq> set (ascii ''%0123456789ABCDEF'')"
proof -
  assume "b < 256"
  then have "b div 16 < 16" "b mod 16 < 16"
    by arith+
  then have "hex_digit (b div 16) \<in> set (ascii ''0123456789ABCDEF'')"
    "hex_digit (b mod 16) \<in> set (ascii ''0123456789ABCDEF'')"
    by (simp_all only: hex_digit_facts)
  then show ?thesis
    by (auto simp: percent_octet_def ascii_def)
qed

lemma escape_chars:
  "cp < 0x110000 \<Longrightarrow> set (escape cp) \<subseteq> set (ascii ''%0123456789ABCDEF'')"
  using utf8_octet_bound [of cp] percent_octet_chars by (fastforce simp: escape_def)

lemma encode_chars:
  "encodeURIComponent s = Inr r \<Longrightarrow>
     set r \<subseteq> {x. uri_unreserved x} \<union> set (ascii ''%0123456789ABCDEF'')"
proof (induction s arbitrary: r rule: encodeURIComponent.induct)
  case 1
  then show ?case by simp
next
  case (2 u)
  then show ?case
    using escape_chars [of "unat u"] unat_unit_bound [of u]
    by (auto split: if_splits)
next
  case (3 u v vs)
  show ?case
  proof (cases "uri_unreserved u")
    case True
    then obtain t where t: "encodeURIComponent (v # vs) = Inr t" "r = [u] @ t"
      using "3.prems" by (auto simp: followed_by_Inr)
    then show ?thesis
      using "3.IH"(1) [OF True t(1)] True by auto
  next
    case False
    show ?thesis
    proof (cases "is_high_surrogate u")
      case high: True
      then have low: "is_low_surrogate v"
        using "3.prems" False by (auto split: if_splits)
      then obtain t where t: "encodeURIComponent vs = Inr t" "r = escape (code_point u v) @ t"
        using "3.prems" False high by (auto simp: followed_by_Inr)
      then show ?thesis
        using "3.IH"(2) [OF False high low t(1)] escape_chars [OF code_point_bound [OF high low]]
        by auto
    next
      case nohigh: False
      then have nolow: "\<not> is_low_surrogate u"
        using "3.prems" False by (auto split: if_splits)
      then obtain t where t: "encodeURIComponent (v # vs) = Inr t" "r = escape (unat u) @ t"
        using "3.prems" False nohigh by (auto simp: followed_by_Inr)
      then show ?thesis
        using "3.IH"(3) [OF False nohigh nolow t(1)] escape_chars [of "unat u"]
          unat_unit_bound [of u]
        by auto
    qed
  qed
qed

lemma percent_decode_Cons: "c \<noteq> 0x25 \<Longrightarrow> percent_decode (c # r) = unat c # percent_decode r"
  by (cases "(c # r)" rule: percent_decode.cases) auto

lemma percent_decode_octet:
  "b < 256 \<Longrightarrow> percent_decode (percent_octet b @ r) = b # percent_decode r"
proof -
  assume "b < 256"
  then have "b div 16 < 16" "b mod 16 < 16"
    by arith+
  then have "hex_value (hex_digit (b div 16)) = b div 16"
    "hex_value (hex_digit (b mod 16)) = b mod 16"
    by (simp_all only: hex_digit_facts)
  then show ?thesis
    by (simp add: percent_octet_def)
qed

lemma percent_decode_octets:
  "\<forall>b\<in>set bs. b < 256 \<Longrightarrow>
     percent_decode (concat (map percent_octet bs) @ r) = bs @ percent_decode r"
  by (induction bs) (simp_all add: percent_decode_octet)

lemma percent_decode_escape:
  "cp < 0x110000 \<Longrightarrow> percent_decode (escape cp @ r) = utf8 cp @ percent_decode r"
  using utf8_octet_bound [of cp] by (simp add: escape_def percent_decode_octets)

lemma utf8_unreserved: "uri_unreserved u \<Longrightarrow> utf8 (unat u) = [unat u]"
  using unreserved_small [of u] by (simp add: utf8_def word_less_nat_alt)

lemma encode_decode:
  "encodeURIComponent s = Inr r \<Longrightarrow> percent_decode r = utf8_octets s"
proof (induction s arbitrary: r rule: encodeURIComponent.induct)
  case 1
  then show ?case by simp
next
  case (2 u)
  then show ?case
    using percent_decode_escape [of "unat u" "[]"] unat_unit_bound [of u]
    by (auto simp: utf8_unreserved split: if_splits)
next
  case (3 u v vs)
  show ?case
  proof (cases "uri_unreserved u")
    case True
    then obtain t where t: "encodeURIComponent (v # vs) = Inr t" "r = [u] @ t"
      using "3.prems" by (auto simp: followed_by_Inr)
    then show ?thesis
      using "3.IH"(1) [OF True t(1)] True unreserved_small [of u] unreserved_not_surrogate [of u]
      by (simp add: percent_decode_Cons utf8_unreserved)
  next
    case False
    show ?thesis
    proof (cases "is_high_surrogate u")
      case high: True
      then have low: "is_low_surrogate v"
        using "3.prems" False by (auto split: if_splits)
      then obtain t where t: "encodeURIComponent vs = Inr t" "r = escape (code_point u v) @ t"
        using "3.prems" False high by (auto simp: followed_by_Inr)
      then show ?thesis
        using "3.IH"(2) [OF False high low t(1)] high low
          percent_decode_escape [OF code_point_bound [OF high low]]
        by simp
    next
      case nohigh: False
      then have nolow: "\<not> is_low_surrogate u"
        using "3.prems" False by (auto split: if_splits)
      then obtain t where t: "encodeURIComponent (v # vs) = Inr t" "r = escape (unat u) @ t"
        using "3.prems" False nohigh by (auto simp: followed_by_Inr)
      then show ?thesis
        using "3.IH"(3) [OF False nohigh nolow t(1)] nohigh
          percent_decode_escape [of "unat u"] unat_unit_bound [of u]
        by simp
    qed
  qed
qed

lemma example_orders:
  "encodeURIComponent (order_message ToString order_en) = Inr
       ((ascii ''Hello!%20I'') @ [0x27] @
       (ascii ''d%20like%20to%20place%20an%20order%20from%20Matbakh%20Gedity.%0A%0A%E2%80%A2%201'') @
       (ascii ''x%20Koshari%20-%20EGP%2045%0A%E2%80%A2%202x%20Fattah%20-%20EGP%20160%0A%0ATotal%'') @
       (ascii ''3A%20EGP%20205%0A%0ASpecial%20Instructions%3A%20no%20onions%0A%0AThank%20you!''))"
  "encodeURIComponent (order_message ToString order_ar) = Inr
       ((ascii ''%D9%85%D8%B1%D8%AD%D8%A8%D8%A7%D9%8B!%20%D8%A3%'') @
       (ascii ''D9%88%D8%AF%20%D8%AA%D9%82%D8%AF%D9%8A%D9%85%20%D8%B7%D9%84%D8%A8%20%D9%85%D9%86'') @
       (ascii ''%20%D9%85%D8%B7%D8%A8%D8%AE%20%D8%AC%D8%AF%D9%8A%D8%AA%D9%8A.%0A%0A%E2%80%A2%203'') @
       (ascii ''x%20%D8%AD%D9%88%D8%A7%D9%88%D8%B4%D9%8A%20-%20EGP%20135%0A%0A%D8%A7%D9%84%D9%85'') @
       (ascii ''%D8%AC%D9%85%D9%88%D8%B9%3A%20EGP%20135%0A%0A%D8%B4%D9%83%D8%B1%D8%A7%D9%8B!''))"
  "encodeURIComponent (order_message ToString order_lone_surrogate) = Inl URIError"
  by (simp_all add: order_message_def order_en_def order_ar_def order_lone_surrogate_def run_def
        addToCart_def initial_state_def koshari_def fattah_def hawawshi_def hawawshi_ar_def
        cartPrice_def new_line_def or0_def opt_or0_def order_line_def getTotalPrice_def
        int_to_string_def template_string_def bullet_def newline_def greeting_ar_def total_ar_def
        thanks_ar_def instructions_ar_def ascii_def Let_def uri_unreserved_def
        is_high_surrogate_def is_low_surrogate_def followed_by_def escape_def utf8_def
        percent_octet_def hex_digit_def)

text \<open>
  Claim C7, as stated, fails for notes that are not well-formed text: with a lone surrogate
  as the notes, \<open>encodeURIComponent\<close> throws \<open>URIError\<close> and no link is opened.
\<close>

theorem order_composer_counterexample:
  "handleWhatsAppOrder ToString order_lone_surrogate = Inl URIError"
  by (simp add: handleWhatsAppOrder_def example_orders)

text \<open>
  Claim C7, amended. For every cart, language and notes, the message is the greeting of the
  language and an empty line, then for every cart line, in cart order, one line made of the
  bullet, the quantity, \<open>x\<close>, the localized name (in Arabic, when there is one) or else the
  primary name, the line total quantity times unit price, then an empty line and the total
  line with the grand total, then the notes section exactly when the notes are not empty,
  then the thank-you line. When every surrogate of the message is paired, the composer
  leaves the state (cart, notes, language) as it is and requests one effect: opening, in a
  new context, the fixed link \<open>https://wa.me/+201035087703?text=\<close> followed by the
  percent-encoded message, a text of unreserved characters and \<open>%XX\<close> escapes that decodes to
  the UTF-8 octets of the message. When some surrogate of the message is not paired, the
  composer ends with \<open>URIError\<close>: it opens no link and changes no state.
\<close>

theorem order_composer:
  "order_message toLocaleString st =
       (if language st = ascii ''en''
        then ascii ''Hello! I'' @ [0x27] @ ascii ''d like to place an order from Matbakh Gedity.''
        else greeting_ar) @ newline @ newline
       @ concat (map (order_line toLocaleString (language st)) (cart st))
       @ newline @ (if language st = ascii ''en'' then ascii ''Total'' else total_ar)
       @ ascii '': EGP ''
       @ toLocaleString
           (Fin (\<Sum>l\<leftarrow>cart st. quantity l * (case price l of None \<Rightarrow> 0 | Some p \<Rightarrow> p)))
       @ (if orderNotes st = [] then []
          else newline @ newline
               @ (if language st = ascii ''en'' then ascii ''Special Instructions''
                  else instructions_ar)
               @ ascii '': '' @ orderNotes st)
       @ newline @ newline @ (if language st = ascii ''en'' then ascii ''Thank you!'' else thanks_ar)
   \<and> order_line toLocaleString lang l =
       bullet @ ascii '' '' @ int_to_string (quantity l) @ ascii ''x ''
       @ template_string (if lang = ascii ''ar'' \<and> name_ar l \<noteq> None \<and> name_ar l \<noteq> Some []
                          then name_ar l else name l)
       @ ascii '' - EGP ''
       @ toLocaleString (Fin (quantity l * (case price l of None \<Rightarrow> 0 | Some p \<Rightarrow> p)))
       @ newline
   \<and> (well_formed (order_message toLocaleString st) \<longrightarrow>
        (\<exists>encoded.
           encodeURIComponent (order_message toLocaleString st) = Inr encoded
         \<and> handleWhatsAppOrder toLocaleString st =
             Inr (st, [WindowOpen (ascii ''https://wa.me/+201035087703?text='' @ encoded)
                         (ascii ''_blank'')])
         \<and> set encoded \<subseteq> {x. uri_unreserved x} \<union> set (ascii ''%0123456789ABCDEF'')
         \<and> percent_decode encoded = utf8_octets (order_message toLocaleString st)))
   \<and> (\<not> well_formed (order_message toLocaleString st) \<longrightarrow>
        handleWhatsAppOrder toLocaleString st = Inl URIError)"
proof (intro conjI impI)
  show "order_message toLocaleString st =
       (if language st = ascii ''en''
        then ascii ''Hello! I'' @ [0x27] @ ascii ''d like to place an order from Matbakh Gedity.''
        else greeting_ar) @ newline @ newline
       @ concat (map (order_line toLocaleString (language st)) (cart st))
       @ newline @ (if language st = ascii ''en'' then ascii ''Total'' else total_ar)
       @ ascii '': EGP ''
       @ toLocaleString
           (Fin (\<Sum>l\<leftarrow>cart st. quantity l * (case price l of None \<Rightarrow> 0 | Some p \<Rightarrow> p)))
       @ (if orderNotes st = [] then []
          else newline @ newline
               @ (if language st = ascii ''en'' then ascii ''Special Instructions''
                  else instructions_ar)
               @ ascii '': '' @ orderNotes st)
       @ newline @ newline @ (if language st = ascii ''en'' then ascii ''Thank you!'' else thanks_ar)"
    by (simp add: order_message_def Let_def foldl_append_concat getTotalPrice_sum line_total_def)
  show "order_line toLocaleString lang l =
       bullet @ ascii '' '' @ int_to_string (quantity l) @ ascii ''x ''
       @ template_string (if lang = ascii ''ar'' \<and> name_ar l \<noteq> None \<and> name_ar l \<noteq> Some []
                          then name_ar l else name l)
       @ ascii '' - EGP ''
       @ toLocaleString (Fin (quantity l * (case price l of None \<Rightarrow> 0 | Some p \<Rightarrow> p)))
       @ newline"
    using term_is_line_total [of l]
    by (simp add: order_line_def Let_def line_total_def)
next
  assume "well_formed (order_message toLocaleString st)"
  then obtain encoded where enc: "encodeURIComponent (order_message toLocaleString st) = Inr encoded"
    using encode_succeeds_iff [of "order_message toLocaleString st"] by blast
  have "handleWhatsAppOrder toLocaleString st =
      Inr (st, [WindowOpen (ascii ''https://wa.me/+201035087703?text='' @ encoded)
                  (ascii ''_blank'')])"
    by (simp add: handleWhatsAppOrder_def enc ascii_def)
  then show "\<exists>encoded.
           encodeURIComponent (order_message toLocaleString st) = Inr encoded
         \<and> handleWhatsAppOrder toLocaleString st =
             Inr (st, [WindowOpen (ascii ''https://wa.me/+201035087703?text='' @ encoded)
                         (ascii ''_blank'')])
         \<and> set encoded \<subseteq> {x. uri_unreserved x} \<union> set (ascii ''%0123456789ABCDEF'')
         \<and> percent_decode encoded = utf8_octets (order_message toLocaleString st)"
    using enc encode_chars [OF enc] encode_decode [OF enc] by blast
next
  assume "\<not> well_formed (order_message toLocaleString st)"
  then have "encodeURIComponent (order_message toLocaleString st) = Inl URIError"
    by (simp add: encode_fails_iff)
  then show "handleWhatsAppOrder toLocaleString st = Inl URIError"
    by (simp add: handleWhatsAppOrder_def)
qed

lemma example_well_formed:
  "well_formed (order_message ToString order_en)"
  "well_formed (order_message ToString order_ar)"
  "\<not> well_formed (order_message ToString order_lone_surrogate)"
  by code_simp+

theorem order_composer_witness:
  "well_formed (order_message ToString order_en)
   \<and> handleWhatsAppOrder ToString order_en =
       Inr (order_en,
            [WindowOpen
              (ascii ''https://wa.me/+201035087703?text='' @
       ((ascii ''Hello!%20I'') @ [0x27] @
       (ascii ''d%20like%20to%20place%20an%20order%20from%20Matbakh%20Gedity.%0A%0A%E2%80%A2%201'') @
       (ascii ''x%20Koshari%20-%20EGP%2045%0A%E2%80%A2%202x%20Fattah%20-%20EGP%20160%0A%0ATotal%'') @
       (ascii ''3A%20EGP%20205%0A%0ASpecial%20Instructions%3A%20no%20onions%0A%0AThank%20you!'')))
              (ascii ''_blank'')])
   \<and> well_formed (order_message ToString order_ar)
   \<and> handleWhatsAppOrder ToString order_ar =
       Inr (order_ar,
            [WindowOpen
              (ascii ''https://wa.me/+201035087703?text='' @
       ((ascii ''%D9%85%D8%B1%D8%AD%D8%A8%D8%A7%D9%8B!%20%D8%A3%'') @
       (ascii ''D9%88%D8%AF%20%D8%AA%D9%82%D8%AF%D9%8A%D9%85%20%D8%B7%D9%84%D8%A8%20%D9%85%D9%86'') @
       (ascii ''%20%D9%85%D8%B7%D8%A8%D8%AE%20%D8%AC%D8%AF%D9%8A%D8%AA%D9%8A.%0A%0A%E2%80%A2%203'') @
       (ascii ''x%20%D8%AD%D9%88%D8%A7%D9%88%D8%B4%D9%8A%20-%20EGP%20135%0A%0A%D8%A7%D9%84%D9%85'') @
       (ascii ''%D8%AC%D9%85%D9%88%D8%B9%3A%20EGP%20135%0A%0A%D8%B4%D9%83%D8%B1%D8%A7%D9%8B!'')))
              (ascii ''_blank'')])
   \<and> \<not> well_formed (order_message ToString order_lone_surrogate)
   \<and> handleWhatsAppOrder ToString (order_lone_surrogate\<lparr>language := ascii ''en''\<rparr>) = Inl URIError"
proof -
  note succeeds = conjunct1 [OF conjunct2 [OF conjunct2 [OF order_composer]]]
  note fails = conjunct2 [OF conjunct2 [OF conjunct2 [OF order_composer]]]
  obtain e1 where e1: "encodeURIComponent (order_message ToString order_en) = Inr e1"
    "handleWhatsAppOrder ToString order_en =
       Inr (order_en, [WindowOpen (ascii ''https://wa.me/+201035087703?text='' @ e1)
                        (ascii ''_blank'')])"
    using succeeds [of ToString order_en] example_well_formed(1) by blast
  obtain e2 where e2: "encodeURIComponent (order_message ToString order_ar) = Inr e2"
    "handleWhatsAppOrder ToString order_ar =
       Inr (order_ar, [WindowOpen (ascii ''https://wa.me/+201035087703?text='' @ e2)
                        (ascii ''_blank'')])"
    using succeeds [of ToString order_ar] example_well_formed(2) by blast
  have "\<not> well_formed (order_message ToString (order_lone_surrogate\<lparr>language := ascii ''en''\<rparr>))"
    by code_simp
  then have e3: "handleWhatsAppOrder ToString (order_lone_surrogate\<lparr>language := ascii ''en''\<rparr>)
      = Inl URIError"
    using fails [of ToString "order_lone_surrogate\<lparr>language := ascii ''en''\<rparr>"] by blast
  show ?thesis
    using e1 e2 e3 example_orders(1,2) example_well_formed by simp
qed

end
